theory Spec2Isabelle
  imports Complex_Main "HOL-Library.Sublist"
begin

section \<open>The token lifecycle of \<open>AgentMemoryClient\<close> (examples/python-client.py)\<close>

text \<open>
  The client keeps an access token, a refresh token and an expiry time, and talks to
  the server through \<open>requests.post\<close>. The model passes the client object and the
  outside world explicitly: every method takes the client and the world and returns its
  result (or the exception it raises) together with the client and the world as the
  method leaves them. An exception does not undo the assignments made before it, so
  the client returned beside an error is the object as the raise left it.

  Modelling choices:
  \<^item> a Python float is a finite real, an infinity or NaN; the sum of two finite floats
    is rounded to the nearest binary64 value, ties to even; a comparison with NaN is
    false;
  \<^item> the token fields have the annotated type \<open>Optional[str]\<close>;
  \<^item> a response body is not JSON, JSON that is not an object, or an object, of which
    the model keeps the keys the client reads; each key is missing
    (\<open>data[key]\<close> raises \<open>KeyError\<close>), present with \<open>null\<close> (Python's \<open>None\<close>), or
    present with a value of the type the interface documents (a string for a token, a
    number for a lifetime, an object for \<open>user\<close>);
  \<^item> the network is a function from the requests issued so far (the last one being
    the current request) to what \<open>requests.post\<close> does with it: the time it takes and
    either a response or a transport failure;
  \<^item> \<open>print\<close> writes nothing the client reads back; only the subscripts evaluated
    inside its argument are kept, because they can raise.
\<close>

subsection \<open>Python floats\<close>

datatype pyfloat = Finite real | PosInf | NegInf | NaN

text \<open>
  Rounding a real to binary64, to nearest with ties to even: the exponent of \<open>x\<close>, not
  below that of the smallest normal number; the spacing of the floats around \<open>x\<close> (53
  significant bits); the nearest multiple of that spacing; infinity when the result
  leaves the range.
\<close>

definition bexp :: "real \<Rightarrow> int" where
  "bexp x = max \<lfloor>log 2 \<bar>x\<bar>\<rfloor> (- 1022)"

definition ulp :: "real \<Rightarrow> real" where
  "ulp x = 2 powi (bexp x - 52)"

definition round_half_even :: "real \<Rightarrow> int" where
  "round_half_even y =
     (let f = \<lfloor>y\<rfloor>; d = y - of_int f
      in if d < 1 / 2 then f else if 1 / 2 < d then f + 1 else if even f then f else f + 1)"

definition rnd :: "real \<Rightarrow> pyfloat" where
  "rnd x =
     (if x = 0 then Finite 0
      else let r = of_int (round_half_even (x / ulp x)) * ulp x
           in if 2 ^ 1024 \<le> r then PosInf
              else if r \<le> - (2 ^ 1024) then NegInf
              else Finite r)"

text \<open>Float addition \<open>a + b\<close>.\<close>

fun fadd :: "pyfloat \<Rightarrow> pyfloat \<Rightarrow> pyfloat" where
  "fadd NaN b = NaN"
| "fadd a NaN = NaN"
| "fadd PosInf NegInf = NaN"
| "fadd NegInf PosInf = NaN"
| "fadd PosInf b = PosInf"
| "fadd a PosInf = PosInf"
| "fadd NegInf b = NegInf"
| "fadd a NegInf = NegInf"
| "fadd (Finite x) (Finite y) = rnd (x + y)"

text \<open>The comparisons \<open>a >= b\<close> and \<open>a < b\<close>; both are false when either side is NaN.\<close>

fun float_ge :: "pyfloat \<Rightarrow> pyfloat \<Rightarrow> bool" where
  "float_ge NaN b = False"
| "float_ge a NaN = False"
| "float_ge PosInf b = True"
| "float_ge a NegInf = True"
| "float_ge NegInf b = False"
| "float_ge a PosInf = False"
| "float_ge (Finite x) (Finite y) = (y \<le> x)"

fun float_lt :: "pyfloat \<Rightarrow> pyfloat \<Rightarrow> bool" where
  "float_lt NaN b = False"
| "float_lt a NaN = False"
| "float_lt PosInf b = False"
| "float_lt a NegInf = False"
| "float_lt NegInf b = True"
| "float_lt a PosInf = True"
| "float_lt (Finite x) (Finite y) = (x < y)"

subsection \<open>Data\<close>

type_synonym headers = "(string \<times> string) list"

record request =
  url :: string
  req_headers :: "headers option"
  req_json :: "(string \<times> string option) list"

text \<open>What a key of a JSON object holds.\<close>

datatype 'a field = Missing | Null | Value 'a

text \<open>A JSON number as Python parses it: an \<open>int\<close> of any size or a \<open>float\<close>.\<close>

datatype number = PyInt int | PyFloat pyfloat

text \<open>The body of a response; \<open>user_f\<close> holds the keys of the \<open>user\<close> object.\<close>

record token_body =
  access_token_f :: "string field"
  refresh_token_f :: "string field"
  expires_in_f :: "number field"
  refresh_expires_in_f :: "number field"
  user_f :: "string list field"

text \<open>
  What \<open>response.json()\<close> does with the body: it raises when the body is not JSON,
  and returns the parsed value. Subscripting with a key raises \<open>TypeError\<close> on every
  parsed value but an object (\<open>null\<close>, a number, a string, an array).
\<close>

datatype parsed = NotJSON | NotObject | Object token_body

record response =
  status_code :: int
  resp_text :: string
  json :: parsed

record reply =
  elapsed :: real
  outcome :: "response option"

type_synonym network = "request list \<Rightarrow> reply"

record world =
  clock :: real
  sent :: "request list"

record AgentMemoryClient =
  base_url :: string
  access_token :: "string option"
  refresh_token :: "string option"
  token_expires_at :: pyfloat

datatype error =
    Exception string
  | KeyError string
  | TypeError
  | OverflowError
  | JSONDecodeError
  | RequestException

type_synonym 'a result = "(error + 'a) \<times> AgentMemoryClient \<times> world"

subsection \<open>Python primitives\<close>

text \<open>\<open>not x\<close> for an \<open>Optional[str]\<close>: \<open>None\<close> and the empty string are falsy.\<close>

fun truthy :: "string option \<Rightarrow> bool" where
  "truthy None = False"
| "truthy (Some s) = (s \<noteq> [])"

text \<open>\<open>f"{x}"\<close> for an \<open>Optional[str]\<close>: \<open>None\<close> is rendered as the word \<open>None\<close>.\<close>

fun py_str :: "string option \<Rightarrow> string" where
  "py_str None = ''None''"
| "py_str (Some s) = s"

text \<open>The value \<open>data[key]\<close> yields for a key that is present: \<open>null\<close> is \<open>None\<close>.\<close>

fun value_of :: "'a field \<Rightarrow> 'a option" where
  "value_of Missing = None"
| "value_of Null = None"
| "value_of (Value v) = Some v"

text \<open>
  \<open>time.time()\<close>, and the conversion of an \<open>int\<close> operand to \<open>float\<close>, which raises
  \<open>OverflowError\<close> when the \<open>int\<close> is beyond the range of a float.
\<close>

definition time_time :: "world \<Rightarrow> pyfloat" where
  "time_time w = Finite (clock w)"

definition float_of_int :: "int \<Rightarrow> error + pyfloat" where
  "float_of_int i =
     (case rnd (of_int i) of Finite r \<Rightarrow> Inr (Finite r) | _ \<Rightarrow> Inl OverflowError)"

fun py_add :: "pyfloat \<Rightarrow> number \<Rightarrow> error + pyfloat" where
  "py_add a (PyFloat b) = Inr (fadd a b)"
| "py_add a (PyInt i) =
     (case float_of_int i of Inl e \<Rightarrow> Inl e | Inr b \<Rightarrow> Inr (fadd a b))"

text \<open>
  \<open>time.time() + data["expires_in"]\<close>: the clock is read, the key is looked up, and
  the two are added; \<open>None\<close> cannot be added to a float.
\<close>

definition expiry_sum :: "world \<Rightarrow> token_body \<Rightarrow> error + pyfloat" where
  "expiry_sum w data =
     (case expires_in_f data of
        Missing \<Rightarrow> Inl (KeyError ''expires_in'')
      | Null \<Rightarrow> Inl TypeError
      | Value n \<Rightarrow> py_add (time_time w) n)"

text \<open>
  \<open>requests.post\<close>: the request joins the log, the clock advances by the time the
  exchange takes, and the caller gets a response, or \<open>None\<close> when the transport raises.
\<close>

definition requests_post :: "network \<Rightarrow> world \<Rightarrow> request \<Rightarrow> response option \<times> world" where
  "requests_post net w rq =
     (let h = sent w @ [rq]; r = net h
      in (outcome r, \<lparr>clock = clock w + elapsed r, sent = h\<rparr>))"

subsection \<open>The methods\<close>

definition init :: "string \<Rightarrow> AgentMemoryClient" where
  "init b =
     \<lparr>base_url = b, access_token = None, refresh_token = None, token_expires_at = Finite 0\<rparr>"

definition login_request :: "AgentMemoryClient \<Rightarrow> string \<Rightarrow> string \<Rightarrow> string \<Rightarrow> request" where
  "login_request c username password tenant_id =
     \<lparr>url = base_url c @ ''/auth/login'',
      req_headers = None,
      req_json = [(''username'', Some username), (''password'', Some password),
                  (''tenant_id'', Some tenant_id)]\<rparr>"

text \<open>
  The three \<open>print\<close> lines at the end of \<open>login\<close> subscript \<open>data['user']['username']\<close>
  (\<open>None\<close> is not subscriptable), \<open>data['expires_in']\<close> (present, or the assignment
  before would have raised) and \<open>data['refresh_expires_in']\<close>.
\<close>

definition login ::
  "network \<Rightarrow> string \<Rightarrow> string \<Rightarrow> string \<Rightarrow> AgentMemoryClient \<Rightarrow> world \<Rightarrow> unit result" where
  "login net username password tenant_id c w =
     (case requests_post net w (login_request c username password tenant_id) of
        (None, w') \<Rightarrow> (Inl RequestException, c, w')
      | (Some rsp, w') \<Rightarrow>
          if status_code rsp \<noteq> 200
          then (Inl (Exception (''Login failed: '' @ resp_text rsp)), c, w')
          else (case json rsp of
             NotJSON \<Rightarrow> (Inl JSONDecodeError, c, w')
           | NotObject \<Rightarrow> (Inl TypeError, c, w')
           | Object data \<Rightarrow>
          if access_token_f data = Missing then (Inl (KeyError ''access_token''), c, w')
          else let c1 = c\<lparr>access_token := value_of (access_token_f data)\<rparr> in
          if refresh_token_f data = Missing then (Inl (KeyError ''refresh_token''), c1, w')
          else let c2 = c1\<lparr>refresh_token := value_of (refresh_token_f data)\<rparr> in
          (case expiry_sum w' data of
             Inl e \<Rightarrow> (Inl e, c2, w')
           | Inr x \<Rightarrow> let c3 = c2\<lparr>token_expires_at := x\<rparr> in
          (case user_f data of
             Missing \<Rightarrow> (Inl (KeyError ''user''), c3, w')
           | Null \<Rightarrow> (Inl TypeError, c3, w')
           | Value keys \<Rightarrow>
          if ''username'' \<notin> set keys then (Inl (KeyError ''username''), c3, w')
          else if refresh_expires_in_f data = Missing
          then (Inl (KeyError ''refresh_expires_in''), c3, w')
          else (Inr (), c3, w')))))"

definition refresh_request :: "AgentMemoryClient \<Rightarrow> request" where
  "refresh_request c =
     \<lparr>url = base_url c @ ''/auth/token/refresh'',
      req_headers = None,
      req_json = [(''refresh_token'', refresh_token c)]\<rparr>"

definition refresh_access_token :: "network \<Rightarrow> AgentMemoryClient \<Rightarrow> world \<Rightarrow> unit result" where
  "refresh_access_token net c w =
     (if \<not> truthy (refresh_token c)
      then (Inl (Exception ''No refresh token available''), c, w)
      else (case requests_post net w (refresh_request c) of
        (None, w') \<Rightarrow> (Inl RequestException, c, w')
      | (Some rsp, w') \<Rightarrow>
          if status_code rsp \<noteq> 200
          then (Inl (Exception (''Token refresh failed: '' @ resp_text rsp)), c, w')
          else (case json rsp of
             NotJSON \<Rightarrow> (Inl JSONDecodeError, c, w')
           | NotObject \<Rightarrow> (Inl TypeError, c, w')
           | Object data \<Rightarrow>
          if access_token_f data = Missing then (Inl (KeyError ''access_token''), c, w')
          else let c1 = c\<lparr>access_token := value_of (access_token_f data)\<rparr> in
          if refresh_token_f data = Missing then (Inl (KeyError ''refresh_token''), c1, w')
          else let c2 = c1\<lparr>refresh_token := value_of (refresh_token_f data)\<rparr> in
          (case expiry_sum w' data of
             Inl e \<Rightarrow> (Inl e, c2, w')
           | Inr x \<Rightarrow> (Inr (), c2\<lparr>token_expires_at := x\<rparr>, w')))))"

definition ensure_authenticated :: "network \<Rightarrow> AgentMemoryClient \<Rightarrow> world \<Rightarrow> unit result" where
  "ensure_authenticated net c w =
     (if \<not> truthy (access_token c) \<or> float_ge (time_time w) (token_expires_at c)
      then refresh_access_token net c w
      else (Inr (), c, w))"

definition bearer_headers :: "AgentMemoryClient \<Rightarrow> headers" where
  "bearer_headers c =
     [(''Content-Type'', ''application/json''),
      (''Authorization'', ''Bearer '' @ py_str (access_token c))]"

definition get_headers :: "network \<Rightarrow> AgentMemoryClient \<Rightarrow> world \<Rightarrow> headers result" where
  "get_headers net c w =
     (case ensure_authenticated net c w of
        (Inl e, c', w') \<Rightarrow> (Inl e, c', w')
      | (Inr _, c', w') \<Rightarrow> (Inr (bearer_headers c'), c', w'))"

definition revoke_request :: "AgentMemoryClient \<Rightarrow> headers \<Rightarrow> request" where
  "revoke_request c hs =
     \<lparr>url = base_url c @ ''/auth/token/revoke'',
      req_headers = Some hs,
      req_json = [(''refresh_token'', refresh_token c)]\<rparr>"

text \<open>
  In \<open>logout\<close> the keyword arguments of \<open>requests.post\<close> are evaluated left to right:
  \<open>headers=self._get_headers()\<close> runs first and may rotate the refresh token, and the
  \<open>json\<close> body then reads the refresh token the client holds after it.
\<close>

definition logout :: "network \<Rightarrow> AgentMemoryClient \<Rightarrow> world \<Rightarrow> unit result" where
  "logout net c w =
     (if \<not> truthy (refresh_token c) then (Inr (), c, w)
      else (case get_headers net c w of
        (Inl e, c1, w1) \<Rightarrow> (Inl e, c1, w1)
      | (Inr hs, c1, w1) \<Rightarrow>
          (case requests_post net w1 (revoke_request c1 hs) of
             (None, w2) \<Rightarrow> (Inl RequestException, c1, w2)
           | (Some rsp, w2) \<Rightarrow>
               (Inr (), c1\<lparr>access_token := None, refresh_token := None\<rparr>, w2))))"

subsection \<open>Sequences of calls\<close>

text \<open>
  A caller drives one client through a sequence of calls and catches whatever a call
  raises; the client object and the world persist from one call to the next. Time may
  pass between calls.
\<close>

datatype operation =
    Login string string string
  | Refresh
  | EnsureValid
  | Logout
  | Wait real

fun step :: "network \<Rightarrow> operation \<Rightarrow> AgentMemoryClient \<times> world \<Rightarrow> AgentMemoryClient \<times> world" where
  "step net (Login username password tenant_id) (c, w) = snd (login net username password tenant_id c w)"
| "step net Refresh (c, w) = snd (refresh_access_token net c w)"
| "step net EnsureValid (c, w) = snd (get_headers net c w)"
| "step net Logout (c, w) = snd (logout net c w)"
| "step net (Wait d) (c, w) = (c, w\<lparr>clock := clock w + d\<rparr>)"

fun run :: "network \<Rightarrow> operation list \<Rightarrow> AgentMemoryClient \<times> world \<Rightarrow> AgentMemoryClient \<times> world" where
  "run net [] s = s"
| "run net (x # xs) s = run net xs (step net x s)"

subsection \<open>Notions used by the properties\<close>

text \<open>
  The lifetime (\<open>expires_in\<close>) that a reply declares: the number in the body of a 200
  response.
\<close>

definition declared_lifetime :: "reply \<Rightarrow> number option" where
  "declared_lifetime r =
     (case outcome r of
        None \<Rightarrow> None
      | Some rsp \<Rightarrow>
          if status_code rsp \<noteq> 200 then None
          else (case json rsp of
                  Object data \<Rightarrow> value_of (expires_in_f data)
                | _ \<Rightarrow> None))"

text \<open>
  The pairing of the two tokens: the client holds an access token exactly when it holds
  a refresh token, where holding is what the code tests (\<open>not self.refresh_token\<close>):
  neither \<open>None\<close> nor the empty string.
\<close>

definition paired :: "AgentMemoryClient \<Rightarrow> bool" where
  "paired c = (truthy (access_token c) = truthy (refresh_token c))"

text \<open>
  A server whose 200 bodies, when they carry the key \<open>access_token\<close>, carry the key
  \<open>refresh_token\<close> as well, and the two values are both usable tokens or both not.
\<close>

definition tokens_together :: "network \<Rightarrow> bool" where
  "tokens_together net =
     (\<forall>h rsp data. outcome (net h) = Some rsp \<longrightarrow> status_code rsp = 200 \<longrightarrow>
        json rsp = Object data \<longrightarrow> access_token_f data \<noteq> Missing \<longrightarrow>
        refresh_token_f data \<noteq> Missing \<and>
        truthy (value_of (access_token_f data)) = truthy (value_of (refresh_token_f data)))"







subsection \<open>Concrete clients and servers\<close>

definition home :: string where
  "home = ''http://localhost:3000''"

text \<open>A session valid until time 100, and one that expired at time 10.\<close>

definition session1 :: AgentMemoryClient where
  "session1 = \<lparr>base_url = home, access_token = Some ''a1'',
      refresh_token = Some ''r1'', token_expires_at = Finite 100\<rparr>"

definition expired1 :: AgentMemoryClient where
  "expired1 = \<lparr>base_url = home, access_token = Some ''a1'',
      refresh_token = Some ''r1'', token_expires_at = Finite 10\<rparr>"

definition session2 :: "real \<Rightarrow> AgentMemoryClient" where
  "session2 t = \<lparr>base_url = home, access_token = Some ''a2'',
      refresh_token = Some ''r2'', token_expires_at = Finite t\<rparr>"

definition denied :: response where
  "denied = \<lparr>status_code = 401, resp_text = ''denied'', json = NotJSON\<rparr>"

text \<open>A server that answers every request with status 401 after one time unit.\<close>

definition rejecting :: network where
  "rejecting h = \<lparr>elapsed = 1, outcome = Some denied\<rparr>"

definition body2 :: "int \<Rightarrow> token_body" where
  "body2 e = \<lparr>access_token_f = Value ''a2'', refresh_token_f = Value ''r2'',
      expires_in_f = Value (PyInt e), refresh_expires_in_f = Value (PyInt 3600),
      user_f = Value [''username'']\<rparr>"

definition granted :: "token_body \<Rightarrow> reply" where
  "granted data =
     \<lparr>elapsed = 1, outcome = Some \<lparr>status_code = 200, resp_text = ''ok'', json = Object data\<rparr>\<rparr>"

text \<open>
  A server that answers every request with status 200 and the token pair
  \<open>a2\<close>/\<open>r2\<close>, declaring the lifetime \<open>e\<close>.
\<close>

definition granting :: "int \<Rightarrow> network" where
  "granting e h = granted (body2 e)"

text \<open>A server whose 200 body carries an access token and nothing else.\<close>

definition half :: network where
  "half h =
     granted \<lparr>access_token_f = Value ''a1'', refresh_token_f = Missing, expires_in_f = Missing,
        refresh_expires_in_f = Missing, user_f = Missing\<rparr>"

text \<open>
  A server whose 200 body declares the lifetime \<open>NaN\<close> (a literal Python's JSON
  parser accepts), and the session a login there leaves.
\<close>

definition nan_granting :: network where
  "nan_granting h = granted ((body2 60)\<lparr>expires_in_f := Value (PyFloat NaN)\<rparr>)"

definition nan_session :: AgentMemoryClient where
  "nan_session = \<lparr>base_url = home, access_token = Some ''a2'',
      refresh_token = Some ''r2'', token_expires_at = NaN\<rparr>"

text \<open>A server whose 200 body carries \<open>null\<close> for the access token.\<close>

definition nulling :: network where
  "nulling h = granted ((body2 60)\<lparr>access_token_f := Null\<rparr>)"




section \<open>Auxiliary facts\<close>

subsection \<open>Floats\<close>

lemma round_half_even_of_int: "round_half_even (of_int m) = m"
  by (simp add: round_half_even_def)

lemma bexp_small:
  assumes "n \<noteq> 0" and "\<bar>n\<bar> < 2 ^ 53"
  shows "0 \<le> bexp (of_int n) \<and> bexp (of_int n) \<le> 52"
proof -
  let ?a = "\<bar>real_of_int n\<bar>"
  have a: "?a = of_int \<bar>n\<bar>"
    by simp
  from assms(1) have "1 \<le> \<bar>n\<bar>"
    by simp
  then have a1: "1 \<le> ?a"
    unfolding a by (simp only: of_int_1_le_iff)
  from assms(2) have a2: "?a < 2 ^ 53"
    unfolding a by (simp only: of_int_less_numeral_power_cancel_iff)
  from a1 have "0 \<le> log 2 ?a"
    by simp
  then have l: "0 \<le> \<lfloor>log 2 ?a\<rfloor>"
    by simp
  from a1 a2 have "log 2 ?a < 53"
    using log_less_iff [of 2 ?a 53] by (simp add: powr_realpow)
  then have u: "\<lfloor>log 2 ?a\<rfloor> \<le> 52"
    by (simp add: floor_less_iff [symmetric] floor_le_iff)
  from l u show ?thesis
    by (simp add: bexp_def)
qed

text \<open>An integer below \<open>2 ^ 53\<close> in magnitude is a float: rounding leaves it alone.\<close>

lemma rnd_of_int:
  assumes "\<bar>n\<bar> < 2 ^ 53"
  shows "rnd (of_int n) = Finite (of_int n)"
proof (cases "n = 0")
  case True
  then show ?thesis by (simp add: rnd_def)
next
  case False
  from bexp_small [OF False assms] obtain j :: nat where j: "bexp (of_int n) - 52 = - int j"
    by (metis add.inverse_inverse diff_le_0_iff_le nonneg_int_cases neg_0_le_iff_le)
  then have u: "ulp (of_int n) = inverse (2 ^ j)"
    by (simp add: ulp_def power_int_minus)
  have q: "real_of_int n / ulp (of_int n) = of_int (n * 2 ^ j)"
    by (simp add: u divide_inverse)
  have r: "of_int (round_half_even (real_of_int n / ulp (of_int n))) * ulp (of_int n) = of_int n"
    unfolding q round_half_even_of_int by (simp add: u)
  have "\<bar>real_of_int n\<bar> = of_int \<bar>n\<bar>"
    by simp
  with assms have "\<bar>real_of_int n\<bar> < 2 ^ 53"
    by (simp only: of_int_less_numeral_power_cancel_iff)
  moreover have "(2::real) ^ 53 \<le> 2 ^ 1024"
    by (rule power_increasing) simp_all
  ultimately have b: "real_of_int n < 2 ^ 1024" "- (2 ^ 1024) < real_of_int n"
    by linarith+
  from False b show ?thesis
    by (simp add: rnd_def Let_def r)
qed

lemma py_add_int:
  assumes "\<bar>b\<bar> < 2 ^ 53" and "\<bar>a + b\<bar> < 2 ^ 53"
  shows "py_add (Finite (of_int a)) (PyInt b) = Inr (Finite (of_int (a + b)))"
  using rnd_of_int [OF assms(1)] rnd_of_int [OF assms(2)]
  by (simp add: float_of_int_def)

lemma expiry_sum_int:
  assumes "\<bar>b\<bar> < 2 ^ 53" and "\<bar>a + b\<bar> < 2 ^ 53" and "expires_in_f data = Value (PyInt b)"
  shows "expiry_sum \<lparr>clock = of_int a, sent = h\<rparr> data = Inr (Finite (of_int (a + b)))"
  using py_add_int [OF assms(1,2)] assms(3)
  by (simp add: expiry_sum_def time_time_def del: py_add.simps)

lemmas expiry_sum_6_60 = expiry_sum_int [of 60 6, simplified]
lemmas expiry_sum_21_60 = expiry_sum_int [of 60 21, simplified]

text \<open>
  Rounding moves a number below \<open>2 ^ 53\<close> in magnitude by at most one half, so adding
  a lifetime of at least one second to a time moves it forward.
\<close>

lemma round_half_even_near: "\<bar>of_int (round_half_even y) - y\<bar> \<le> 1 / 2"
proof -
  have "of_int \<lfloor>y\<rfloor> \<le> y" "y < of_int \<lfloor>y\<rfloor> + 1"
    by linarith+
  then show ?thesis
    by (auto simp add: round_half_even_def Let_def)
qed

lemma ulp_small:
  assumes "x \<noteq> 0" and "\<bar>x\<bar> < 2 ^ 53"
  shows "0 < ulp x \<and> ulp x \<le> 1"
proof -
  from assms have "log 2 \<bar>x\<bar> < 53"
    using log_less_iff [of 2 "\<bar>x\<bar>" 53] by (simp add: powr_realpow)
  then have "\<lfloor>log 2 \<bar>x\<bar>\<rfloor> \<le> 52"
    by (simp add: floor_less_iff [symmetric] floor_le_iff)
  then have "bexp x - 52 \<le> 0"
    by (simp add: bexp_def)
  then have "(2::real) powi (bexp x - 52) \<le> 2 powi 0"
    by (intro power_int_increasing) simp_all
  then show ?thesis
    by (simp add: ulp_def)
qed

lemma rnd_near:
  assumes "\<bar>x\<bar> < 2 ^ 53"
  shows "\<exists>r. rnd x = Finite r \<and> \<bar>r - x\<bar> \<le> 1 / 2"
proof (cases "x = 0")
  case True
  then show ?thesis by (simp add: rnd_def)
next
  case False
  let ?q = "ulp x"
  let ?r = "of_int (round_half_even (x / ?q)) * ?q"
  from ulp_small [OF False assms] have q: "0 < ?q" "?q \<le> 1"
    by simp_all
  have "?r - x = (of_int (round_half_even (x / ?q)) - x / ?q) * ?q"
    using q(1) by (simp add: left_diff_distrib)
  then have "\<bar>?r - x\<bar> = \<bar>of_int (round_half_even (x / ?q)) - x / ?q\<bar> * \<bar>?q\<bar>"
    by (simp only: abs_mult)
  also have "\<dots> = \<bar>of_int (round_half_even (x / ?q)) - x / ?q\<bar> * ?q"
    using q(1) by simp
  also have "\<dots> \<le> 1 / 2 * ?q"
    using round_half_even_near [of "x / ?q"] q(1) by (intro mult_right_mono) simp_all
  also have "\<dots> \<le> 1 / 2"
    using q(2) by simp
  finally have near: "\<bar>?r - x\<bar> \<le> 1 / 2" .
  have "(2::real) ^ 53 + 1 \<le> 2 ^ 1024"
  proof -
    have "(2::real) ^ 53 + 1 \<le> 2 ^ 54" by simp
    also have "\<dots> \<le> 2 ^ 1024" by (rule power_increasing) simp_all
    finally show ?thesis .
  qed
  with near assms have "?r < 2 ^ 1024" "- (2 ^ 1024) < ?r"
    by linarith+
  with False near show ?thesis
    by (simp add: rnd_def Let_def)
qed

lemma positive_lifetime_later:
  assumes "1 \<le> e" and "e < 2 ^ 53" and "\<bar>t + of_int e\<bar> < 2 ^ 53" and "now \<le> t"
  shows "\<exists>x. py_add (Finite t) (PyInt e) = Inr x \<and> float_lt (Finite now) x"
proof -
  from assms(1,2) have "\<bar>e\<bar> < 2 ^ 53"
    by simp
  from rnd_of_int [OF this] have f: "float_of_int e = Inr (Finite (of_int e))"
    by (simp add: float_of_int_def)
  from rnd_near [OF assms(3)] obtain r where
    r: "rnd (t + of_int e) = Finite r" "\<bar>r - (t + of_int e)\<bar> \<le> 1 / 2"
    by blast
  from assms(1) have "1 \<le> real_of_int e"
    by simp
  with r(2) assms(4) have "now < r"
    by linarith
  with f r(1) show ?thesis
    by simp
qed

text \<open>
  Absorption: a lifetime far below the spacing of the floats around the time is lost in
  the sum.
\<close>

lemma rnd_nonzero:
  assumes "x \<noteq> 0" and "of_int (round_half_even (x / ulp x)) * ulp x = r"
    and "r < 2 ^ 1024" and "- (2 ^ 1024) < r"
  shows "rnd x = Finite r"
  using assms by (simp add: rnd_def Let_def)

lemma absorbed: "fadd (Finite 21) (Finite (1 / 2 ^ 70)) = Finite 21"
proof -
  let ?x = "21 + 1 / 2 ^ 70 :: real"
  have pos: "0 < ?x" "\<bar>?x\<bar> = ?x"
    by simp_all
  have lo: "2 powr 4 \<le> ?x"
    by (simp add: powr_numeral)
  have hi: "?x < 2 powr 5"
    by (simp add: powr_numeral)
  from lo have "4 \<le> log 2 ?x"
    using le_log_iff [of 2 ?x 4] by simp
  moreover from hi have "log 2 ?x < 5"
    using log_less_iff [of 2 ?x 5] by simp
  ultimately have "\<lfloor>log 2 ?x\<rfloor> = 4"
    by (simp add: floor_eq_iff)
  then have b: "bexp ?x = 4"
    by (simp add: bexp_def pos)
  have u: "ulp ?x = 1 / 2 ^ 48"
    unfolding ulp_def b by (simp add: power_int_minus inverse_eq_divide)
  have q: "?x / ulp ?x = of_int (21 * 2 ^ 48) + 1 / 2 ^ 22"
    unfolding u by simp
  have "\<lfloor>of_int (21 * 2 ^ 48) + (1 / 2 ^ 22 :: real)\<rfloor> = 21 * 2 ^ 48"
    by (simp add: floor_eq_iff)
  then have "round_half_even (?x / ulp ?x) = 21 * 2 ^ 48"
    unfolding q by (simp add: round_half_even_def Let_def)
  then have "of_int (round_half_even (?x / ulp ?x)) * ulp ?x = 21"
    unfolding u by simp
  then have "rnd ?x = Finite 21"
    by (rule rnd_nonzero [rotated]) simp_all
  then show ?thesis
    by (simp only: fadd.simps)
qed

subsection \<open>The methods\<close>

lemma requests_post_simp:
  "requests_post net w rq =
     (outcome (net (sent w @ [rq])),
      \<lparr>clock = clock w + elapsed (net (sent w @ [rq])), sent = sent w @ [rq]\<rparr>)"
  by (simp add: requests_post_def Let_def)

text \<open>What a call that returns normally must have received and stored.\<close>

lemma login_success:
  assumes "login net username password tenant_id c w = (Inr (), c', w')"
  shows "\<exists>rsp data x.
      outcome (net (sent w @ [login_request c username password tenant_id])) = Some rsp \<and>
      status_code rsp = 200 \<and> json rsp = Object data \<and>
      access_token_f data \<noteq> Missing \<and> refresh_token_f data \<noteq> Missing \<and>
      expiry_sum w' data = Inr x \<and>
      w' = \<lparr>clock = clock w + elapsed (net (sent w @ [login_request c username password tenant_id])),
            sent = sent w @ [login_request c username password tenant_id]\<rparr> \<and>
      c' = c\<lparr>access_token := value_of (access_token_f data),
              refresh_token := value_of (refresh_token_f data),
              token_expires_at := x\<rparr>"
  using assms
  by (clarsimp simp add: login_def requests_post_simp Let_def
        split: option.splits parsed.splits if_splits sum.splits field.splits)

lemma refresh_success:
  assumes "refresh_access_token net c w = (Inr (), c', w')"
  shows "\<exists>rsp data x.
      truthy (refresh_token c) \<and>
      outcome (net (sent w @ [refresh_request c])) = Some rsp \<and>
      status_code rsp = 200 \<and> json rsp = Object data \<and>
      access_token_f data \<noteq> Missing \<and> refresh_token_f data \<noteq> Missing \<and>
      expiry_sum w' data = Inr x \<and>
      w' = \<lparr>clock = clock w + elapsed (net (sent w @ [refresh_request c])),
            sent = sent w @ [refresh_request c]\<rparr> \<and>
      c' = c\<lparr>access_token := value_of (access_token_f data),
              refresh_token := value_of (refresh_token_f data),
              token_expires_at := x\<rparr>"
  using assms
  by (clarsimp simp add: refresh_access_token_def requests_post_simp Let_def
        split: option.splits parsed.splits if_splits sum.splits)

lemma expiry_sum_declared:
  assumes "outcome r = Some rsp" and "status_code rsp = 200" and "json rsp = Object data"
    and "expiry_sum w data = Inr x"
  shows "\<exists>n. declared_lifetime r = Some n \<and> py_add (time_time w) n = Inr x"
  using assms
  by (auto simp add: declared_lifetime_def expiry_sum_def split: field.splits)

lemma refresh_world:
  "truthy (refresh_token c) \<Longrightarrow>
     snd (snd (refresh_access_token net c w)) =
       \<lparr>clock = clock w + elapsed (net (sent w @ [refresh_request c])),
        sent = sent w @ [refresh_request c]\<rparr>"
  by (simp add: refresh_access_token_def requests_post_simp Let_def
        split: option.splits parsed.splits sum.splits)

lemma get_headers_unfold:
  "get_headers net c w =
     (if truthy (access_token c) \<and> \<not> float_ge (time_time w) (token_expires_at c)
      then (Inr (bearer_headers c), c, w)
      else (case refresh_access_token net c w of
              (Inl e, c', w') \<Rightarrow> (Inl e, c', w')
            | (Inr u, c', w') \<Rightarrow> (Inr (bearer_headers c'), c', w')))"
  by (auto simp add: get_headers_def ensure_authenticated_def)

text \<open>The only values the two assigning methods give to the expiry.\<close>

lemma login_expiry:
  "token_expires_at (fst (snd (login net username password tenant_id c w))) = token_expires_at c \<or>
   (\<exists>n. declared_lifetime (net (sent w @ [login_request c username password tenant_id])) = Some n \<and>
      py_add (time_time (snd (snd (login net username password tenant_id c w)))) n =
        Inr (token_expires_at (fst (snd (login net username password tenant_id c w)))))"
  by (auto simp add: login_def requests_post_simp declared_lifetime_def expiry_sum_def Let_def
        split: option.splits parsed.splits sum.splits field.splits)

lemma refresh_expiry:
  "token_expires_at (fst (snd (refresh_access_token net c w))) = token_expires_at c \<or>
   (\<exists>n. declared_lifetime (net (sent w @ [refresh_request c])) = Some n \<and>
      py_add (time_time (snd (snd (refresh_access_token net c w)))) n =
        Inr (token_expires_at (fst (snd (refresh_access_token net c w)))))"
  by (auto simp add: refresh_access_token_def requests_post_simp declared_lifetime_def
        expiry_sum_def Let_def split: option.splits parsed.splits sum.splits field.splits)

text \<open>The concrete servers at work.\<close>

lemma refresh_rejected_run:
  "refresh_access_token rejecting expired1 \<lparr>clock = t, sent = h\<rparr> =
     (Inl (Exception ''Token refresh failed: denied''), expired1,
      \<lparr>clock = t + 1, sent = h @ [refresh_request expired1]\<rparr>)"
  by (simp add: refresh_access_token_def requests_post_simp rejecting_def denied_def
        expired1_def)

lemma refresh_granted_run:
  "refresh_access_token (granting 60) expired1 \<lparr>clock = 20, sent = h\<rparr> =
     (Inr (), session2 81, \<lparr>clock = 21, sent = h @ [refresh_request expired1]\<rparr>)"
  by (simp add: refresh_access_token_def requests_post_simp granting_def granted_def body2_def
        expired1_def session2_def expiry_sum_21_60 Let_def)


lemma login_granted_run:
  "login (granting 60) username password tenant_id (init home) \<lparr>clock = 5, sent = h\<rparr> =
     (Inr (), session2 66,
      \<lparr>clock = 6, sent = h @ [login_request (init home) username password tenant_id]\<rparr>)"
  by (simp add: login_def requests_post_simp granting_def granted_def body2_def init_def
        session2_def expiry_sum_6_60 Let_def)

text \<open>A \<open>null\<close> access token is stored and rendered as Python renders \<open>None\<close>.\<close>

lemma get_headers_nulling_run:
  "get_headers nulling expired1 \<lparr>clock = 20, sent = []\<rparr> =
     (Inr [(''Content-Type'', ''application/json''), (''Authorization'', ''Bearer None'')],
      (session2 81)\<lparr>access_token := None\<rparr>,
      \<lparr>clock = 21, sent = [refresh_request expired1]\<rparr>)"
  by (simp add: get_headers_unfold refresh_access_token_def requests_post_simp nulling_def
        granted_def body2_def expired1_def session2_def expiry_sum_21_60 Let_def
        bearer_headers_def time_time_def)

section \<open>Properties\<close>

text \<open>
  C5. In every state that holds no refresh token (\<open>None\<close> or the empty string, the two
  values \<open>not self.refresh_token\<close> accepts), \<open>refresh_access_token\<close> raises
  \<open>Exception("No refresh token available")\<close> locally: the request log and the clock are
  as before (no network call) and the client is unchanged.
\<close>

theorem refresh_without_token_is_local:
  "\<not> truthy (refresh_token c) \<Longrightarrow>
     refresh_access_token net c w = (Inl (Exception ''No refresh token available''), c, w)"
  by (simp add: refresh_access_token_def)

theorem refresh_without_token_is_local_witness:
  "\<not> truthy (refresh_token (init home)) \<and>
   refresh_access_token (granting 60) (init home) \<lparr>clock = 5, sent = []\<rparr>
     = (Inl (Exception ''No refresh token available''), init home, \<lparr>clock = 5, sent = []\<rparr>)"
proof -
  have h: "\<not> truthy (refresh_token (init home))"
    by (simp add: init_def)
  show ?thesis
    using h refresh_without_token_is_local [OF h] by simp
qed

text \<open>
  C7. Whatever the client held before, a login answered with a status other than 200
  raises \<open>Exception("Login failed: " + response.text)\<close>, the server's message, and
  leaves the client exactly as it was; only the world has moved (one request sent, time
  passed).
\<close>

theorem login_rejected_keeps_state:
  "outcome (net (sent w @ [login_request c username password tenant_id])) = Some rsp \<Longrightarrow>
   status_code rsp \<noteq> 200 \<Longrightarrow>
   login net username password tenant_id c w =
     (Inl (Exception (''Login failed: '' @ resp_text rsp)), c,
      \<lparr>clock = clock w + elapsed (net (sent w @ [login_request c username password tenant_id])),
       sent = sent w @ [login_request c username password tenant_id]\<rparr>)"
  by (simp add: login_def requests_post_simp)

theorem login_rejected_keeps_state_witness:
  "outcome (rejecting (sent \<lparr>clock = 50, sent = []\<rparr> @ [login_request session1 ''u'' ''p'' ''t'']))
     = Some denied \<and>
   status_code denied \<noteq> 200 \<and>
   login rejecting ''u'' ''p'' ''t'' session1 \<lparr>clock = 50, sent = []\<rparr> =
     (Inl (Exception ''Login failed: denied''), session1,
      \<lparr>clock = 51, sent = [login_request session1 ''u'' ''p'' ''t'']\<rparr>)"
proof -
  have h1: "outcome (rejecting (sent \<lparr>clock = 50, sent = []\<rparr> @ [login_request session1 ''u'' ''p'' ''t'']))
     = Some denied"
    by (simp add: rejecting_def)
  have h2: "status_code denied \<noteq> 200"
    by (simp add: denied_def)
  show ?thesis
    using h1 h2
      login_rejected_keeps_state [of rejecting "\<lparr>clock = 50, sent = []\<rparr>" session1
        "''u''" "''p''" "''t''" denied, OF h1 h2]
    by (simp add: rejecting_def denied_def)
qed

text \<open>
  C6. In a state that holds a refresh token, a refresh answered with a status other
  than 200 raises \<open>Exception("Token refresh failed: " + response.text)\<close> and leaves the
  client exactly as it was. A later \<open>_get_headers\<close> on that state, at any time at which
  it is expired (or without access token), sends the refresh request again.
\<close>

theorem refresh_rejected_keeps_state:
  assumes "truthy (refresh_token c)"
    and "outcome (net (sent w @ [refresh_request c])) = Some rsp"
    and "status_code rsp \<noteq> 200"
  shows "refresh_access_token net c w =
     (Inl (Exception (''Token refresh failed: '' @ resp_text rsp)), c,
      \<lparr>clock = clock w + elapsed (net (sent w @ [refresh_request c])),
       sent = sent w @ [refresh_request c]\<rparr>) \<and>
     (\<not> truthy (access_token c) \<or> float_ge (time_time w2) (token_expires_at c) \<longrightarrow>
        sent (snd (snd (get_headers net c w2))) = sent w2 @ [refresh_request c])"
proof -
  have a: "refresh_access_token net c w =
     (Inl (Exception (''Token refresh failed: '' @ resp_text rsp)), c,
      \<lparr>clock = clock w + elapsed (net (sent w @ [refresh_request c])),
       sent = sent w @ [refresh_request c]\<rparr>)"
    using assms by (simp add: refresh_access_token_def requests_post_simp)
  have b: "sent (snd (snd (get_headers net c w2))) = sent w2 @ [refresh_request c]"
    if "\<not> truthy (access_token c) \<or> float_ge (time_time w2) (token_expires_at c)"
    using that assms(1) refresh_world [of c net w2]
    by (auto simp add: get_headers_unfold split: sum.splits prod.splits)
  show ?thesis using a b by blast
qed

theorem refresh_rejected_keeps_state_witness:
  "truthy (refresh_token expired1) \<and>
   outcome (rejecting (sent \<lparr>clock = 20, sent = []\<rparr> @ [refresh_request expired1])) = Some denied \<and>
   status_code denied \<noteq> 200 \<and>
   refresh_access_token rejecting expired1 \<lparr>clock = 20, sent = []\<rparr> =
     (Inl (Exception ''Token refresh failed: denied''), expired1,
      \<lparr>clock = 21, sent = [refresh_request expired1]\<rparr>) \<and>
   float_ge (time_time \<lparr>clock = 21, sent = [refresh_request expired1]\<rparr>) (token_expires_at expired1) \<and>
   sent (snd (snd (get_headers rejecting expired1 \<lparr>clock = 21, sent = [refresh_request expired1]\<rparr>)))
     = [refresh_request expired1, refresh_request expired1]"
proof -
  have h1: "truthy (refresh_token expired1)"
    by (simp add: expired1_def)
  have h2: "outcome (rejecting (sent \<lparr>clock = 20, sent = []\<rparr> @ [refresh_request expired1]))
     = Some denied"
    by (simp add: rejecting_def)
  have h3: "status_code denied \<noteq> 200"
    by (simp add: denied_def)
  have h4: "float_ge (time_time \<lparr>clock = 21, sent = [refresh_request expired1]\<rparr>)
      (token_expires_at expired1)"
    by (simp add: expired1_def time_time_def)
  show ?thesis
    using h1 h2 h3 h4
      refresh_rejected_keeps_state [of expired1 rejecting "\<lparr>clock = 20, sent = []\<rparr>" denied
        "\<lparr>clock = 21, sent = [refresh_request expired1]\<rparr>", OF h1 h2 h3]
    by (simp add: rejecting_def denied_def)
qed

text \<open>
  C9. Whenever \<open>login\<close> or \<open>refresh_access_token\<close> returns normally, the response was
  a 200 whose body declared a lifetime \<open>expires_in\<close>, and the stored
  \<open>token_expires_at\<close> is the sum \<open>time.time() + expires_in\<close>, in float arithmetic, of
  the clock when the response had arrived and that lifetime.
  On every path, raising ones included, the two methods either leave
  \<open>token_expires_at\<close> as it was or set it in that way; no other method assigns it.
\<close>

theorem expiry_from_declared_lifetime:
  "(login net username password tenant_id c w = (Inr (), c', w') \<longrightarrow>
      (\<exists>n. declared_lifetime (net (sent w @ [login_request c username password tenant_id])) = Some n \<and>
         clock w' = clock w + elapsed (net (sent w @ [login_request c username password tenant_id])) \<and>
         py_add (time_time w') n = Inr (token_expires_at c'))) \<and>
   (refresh_access_token net c w = (Inr (), c'', w'') \<longrightarrow>
      (\<exists>n. declared_lifetime (net (sent w @ [refresh_request c])) = Some n \<and>
         clock w'' = clock w + elapsed (net (sent w @ [refresh_request c])) \<and>
         py_add (time_time w'') n = Inr (token_expires_at c''))) \<and>
   (login net username password tenant_id c w = (res, d, v) \<longrightarrow>
      token_expires_at d = token_expires_at c \<or>
      (\<exists>n. declared_lifetime (net (sent w @ [login_request c username password tenant_id])) = Some n \<and>
         py_add (time_time v) n = Inr (token_expires_at d))) \<and>
   (refresh_access_token net c w = (res', d', v') \<longrightarrow>
      token_expires_at d' = token_expires_at c \<or>
      (\<exists>n. declared_lifetime (net (sent w @ [refresh_request c])) = Some n \<and>
         py_add (time_time v') n = Inr (token_expires_at d')))"
proof (intro conjI impI)
  assume "login net username password tenant_id c w = (Inr (), c', w')"
  from login_success [OF this] obtain rsp data x where
    o: "outcome (net (sent w @ [login_request c username password tenant_id])) = Some rsp"
       "status_code rsp = 200" "json rsp = Object data" "expiry_sum w' data = Inr x"
    and w': "clock w' = clock w + elapsed (net (sent w @ [login_request c username password tenant_id]))"
    and c': "token_expires_at c' = x"
    by auto
  from expiry_sum_declared [OF o] w' c'
  show "\<exists>n. declared_lifetime (net (sent w @ [login_request c username password tenant_id])) = Some n \<and>
         clock w' = clock w + elapsed (net (sent w @ [login_request c username password tenant_id])) \<and>
         py_add (time_time w') n = Inr (token_expires_at c')"
    by auto
next
  assume "refresh_access_token net c w = (Inr (), c'', w'')"
  from refresh_success [OF this] obtain rsp data x where
    o: "outcome (net (sent w @ [refresh_request c])) = Some rsp"
       "status_code rsp = 200" "json rsp = Object data" "expiry_sum w'' data = Inr x"
    and w': "clock w'' = clock w + elapsed (net (sent w @ [refresh_request c]))"
    and c': "token_expires_at c'' = x"
    by auto
  from expiry_sum_declared [OF o] w' c'
  show "\<exists>n. declared_lifetime (net (sent w @ [refresh_request c])) = Some n \<and>
         clock w'' = clock w + elapsed (net (sent w @ [refresh_request c])) \<and>
         py_add (time_time w'') n = Inr (token_expires_at c'')"
    by auto
next
  assume "login net username password tenant_id c w = (res, d, v)"
  with login_expiry [of net username password tenant_id c w]
  show "token_expires_at d = token_expires_at c \<or>
      (\<exists>n. declared_lifetime (net (sent w @ [login_request c username password tenant_id])) = Some n \<and>
         py_add (time_time v) n = Inr (token_expires_at d))"
    by simp
next
  assume "refresh_access_token net c w = (res', d', v')"
  with refresh_expiry [of net c w]
  show "token_expires_at d' = token_expires_at c \<or>
      (\<exists>n. declared_lifetime (net (sent w @ [refresh_request c])) = Some n \<and>
         py_add (time_time v') n = Inr (token_expires_at d'))"
    by simp
qed

theorem expiry_from_declared_lifetime_witness:
  "login (granting 60) ''u'' ''p'' ''t'' (init home) \<lparr>clock = 5, sent = []\<rparr> =
     (Inr (), session2 66, \<lparr>clock = 6, sent = [login_request (init home) ''u'' ''p'' ''t'']\<rparr>) \<and>
   refresh_access_token (granting 60) expired1 \<lparr>clock = 20, sent = []\<rparr> =
     (Inr (), session2 81, \<lparr>clock = 21, sent = [refresh_request expired1]\<rparr>) \<and>
   declared_lifetime (granting 60 [login_request (init home) ''u'' ''p'' ''t'']) = Some (PyInt 60) \<and>
   py_add (Finite 6) (PyInt 60) = Inr (token_expires_at (session2 66)) \<and>
   token_expires_at (session2 66) = Finite 66 \<and>
   declared_lifetime (granting 60 [refresh_request expired1]) = Some (PyInt 60) \<and>
   py_add (Finite 21) (PyInt 60) = Inr (token_expires_at (session2 81)) \<and>
   token_expires_at (session2 81) = Finite 81"
proof -
  have l: "login (granting 60) ''u'' ''p'' ''t'' (init home) \<lparr>clock = 5, sent = []\<rparr> =
     (Inr (), session2 66, \<lparr>clock = 6, sent = [login_request (init home) ''u'' ''p'' ''t'']\<rparr>)"
    using login_granted_run [of "''u''" "''p''" "''t''" "[]"] by simp
  have r: "refresh_access_token (granting 60) expired1 \<lparr>clock = 20, sent = []\<rparr> =
     (Inr (), session2 81, \<lparr>clock = 21, sent = [refresh_request expired1]\<rparr>)"
    using refresh_granted_run [of "[]"] by simp
  have dl: "declared_lifetime (granting 60 h) = Some (PyInt 60)" for h
    by (simp add: declared_lifetime_def granting_def granted_def body2_def)
  from expiry_from_declared_lifetime [of "granting 60" "''u''" "''p''" "''t''" "init home"
      "\<lparr>clock = 5, sent = []\<rparr>" "session2 66"
      "\<lparr>clock = 6, sent = [login_request (init home) ''u'' ''p'' ''t'']\<rparr>"] l
  have a: "py_add (Finite 6) (PyInt 60) = Inr (token_expires_at (session2 66))"
    by (simp add: dl time_time_def del: py_add.simps)
  from expiry_from_declared_lifetime [of "granting 60" _ _ _ expired1
      "\<lparr>clock = 20, sent = []\<rparr>" _ _ "session2 81"
      "\<lparr>clock = 21, sent = [refresh_request expired1]\<rparr>"] r
  have b: "py_add (Finite 21) (PyInt 60) = Inr (token_expires_at (session2 81))"
    by (simp add: dl time_time_def del: py_add.simps)
  have s: "token_expires_at (session2 66) = Finite 66" "token_expires_at (session2 81) = Finite 81"
    by (simp_all add: session2_def)
  from l r a b s dl show ?thesis
    by blast
qed




text \<open>
  An expiry that is NaN: after a login whose response declared the lifetime NaN,
  \<open>time.time() >= self.token_expires_at\<close> is false at every time, so the token is
  handed out without a refresh, with an expiry that is not later than the call.
\<close>

lemma nan_expiry_run:
  "login nan_granting ''u'' ''p'' ''t'' (init home) \<lparr>clock = 5, sent = []\<rparr> =
     (Inr (), nan_session, \<lparr>clock = 6, sent = [login_request (init home) ''u'' ''p'' ''t'']\<rparr>) \<and>
   get_headers rejecting nan_session \<lparr>clock = 1000, sent = []\<rparr> =
     (Inr [(''Content-Type'', ''application/json''), (''Authorization'', ''Bearer a2'')],
      nan_session, \<lparr>clock = 1000, sent = []\<rparr>) \<and>
   \<not> float_lt (time_time \<lparr>clock = 1000, sent = []\<rparr>) (token_expires_at nan_session)"
  by (simp add: login_def requests_post_simp nan_granting_def granted_def body2_def init_def
        nan_session_def expiry_sum_def time_time_def get_headers_unfold bearer_headers_def)




text \<open>
  C1 (amended). \<open>logout\<close> has no exception handling. In a state that holds a refresh
  token it first obtains headers through \<open>_get_headers\<close>, then posts the revoke request:
  \<^item> if the headers are obtained and the revoke request is answered, with whatever
    status, both tokens are cleared and \<open>logout\<close> returns normally;
  \<^item> if the transport fails on the revoke request, that failure is raised and the tokens
    are not cleared;
  \<^item> if \<open>_get_headers\<close> raises (its refresh failed), that error is raised, no revoke
    request is sent and the tokens are not cleared.
\<close>

theorem logout_clears_when_revoke_answered:
  assumes "truthy (refresh_token c)"
  shows "(get_headers net c w = (Inr hs, c1, w1) \<and>
          outcome (net (sent w1 @ [revoke_request c1 hs])) = Some rsp \<longrightarrow>
            logout net c w =
              (Inr (), c1\<lparr>access_token := None, refresh_token := None\<rparr>,
               \<lparr>clock = clock w1 + elapsed (net (sent w1 @ [revoke_request c1 hs])),
                sent = sent w1 @ [revoke_request c1 hs]\<rparr>)) \<and>
         (get_headers net c w = (Inr hs, c1, w1) \<and>
          outcome (net (sent w1 @ [revoke_request c1 hs])) = None \<longrightarrow>
            logout net c w =
              (Inl RequestException, c1,
               \<lparr>clock = clock w1 + elapsed (net (sent w1 @ [revoke_request c1 hs])),
                sent = sent w1 @ [revoke_request c1 hs]\<rparr>)) \<and>
         (get_headers net c w = (Inl e, c1, w1) \<longrightarrow> logout net c w = (Inl e, c1, w1))"
  using assms by (simp add: logout_def requests_post_simp)

theorem logout_clears_when_revoke_answered_witness:
  "truthy (refresh_token session1) \<and>
   get_headers rejecting session1 \<lparr>clock = 50, sent = []\<rparr> =
     (Inr (bearer_headers session1), session1, \<lparr>clock = 50, sent = []\<rparr>) \<and>
   outcome (rejecting (sent \<lparr>clock = 50, sent = []\<rparr> @ [revoke_request session1 (bearer_headers session1)]))
     = Some denied \<and>
   status_code denied = 401 \<and>
   logout rejecting session1 \<lparr>clock = 50, sent = []\<rparr> =
     (Inr (), session1\<lparr>access_token := None, refresh_token := None\<rparr>,
      \<lparr>clock = 51, sent = [revoke_request session1 (bearer_headers session1)]\<rparr>)"
proof -
  have t: "truthy (refresh_token session1)"
    by (simp add: session1_def)
  have g: "get_headers rejecting session1 \<lparr>clock = 50, sent = []\<rparr> =
     (Inr (bearer_headers session1), session1, \<lparr>clock = 50, sent = []\<rparr>)"
    by (simp add: get_headers_unfold session1_def time_time_def)
  have r: "outcome (rejecting (sent \<lparr>clock = 50, sent = []\<rparr> @ [revoke_request session1 (bearer_headers session1)]))
     = Some denied"
    by (simp add: rejecting_def)
  have s: "status_code denied = 401"
    by (simp add: denied_def)
  from logout_clears_when_revoke_answered [OF t, of rejecting "\<lparr>clock = 50, sent = []\<rparr>"
      "bearer_headers session1" session1 "\<lparr>clock = 50, sent = []\<rparr>" denied] g r
  have "logout rejecting session1 \<lparr>clock = 50, sent = []\<rparr> =
     (Inr (), session1\<lparr>access_token := None, refresh_token := None\<rparr>,
      \<lparr>clock = 51, sent = [revoke_request session1 (bearer_headers session1)]\<rparr>)"
    by (simp add: rejecting_def)
  with t g r s show ?thesis
    by blast
qed

text \<open>
  The claim as stated fails: with the access token expired and the refresh rejected,
  \<open>logout\<close> raises the refresh error and both tokens stay.
\<close>

theorem logout_clears_when_revoke_answered_counterexample:
  "truthy (refresh_token expired1) \<and>
   logout rejecting expired1 \<lparr>clock = 20, sent = []\<rparr> =
     (Inl (Exception ''Token refresh failed: denied''), expired1,
      \<lparr>clock = 21, sent = [refresh_request expired1]\<rparr>) \<and>
   access_token expired1 = Some ''a1'' \<and> refresh_token expired1 = Some ''r1''"
proof -
  have "get_headers rejecting expired1 \<lparr>clock = 20, sent = []\<rparr> =
     (Inl (Exception ''Token refresh failed: denied''), expired1,
      \<lparr>clock = 21, sent = [refresh_request expired1]\<rparr>)"
    using refresh_rejected_run [of 20 "[]"]
    by (simp add: get_headers_unfold expired1_def time_time_def)
  then have "logout rejecting expired1 \<lparr>clock = 20, sent = []\<rparr> =
     (Inl (Exception ''Token refresh failed: denied''), expired1,
      \<lparr>clock = 21, sent = [refresh_request expired1]\<rparr>)"
    by (simp add: logout_def expired1_def)
  then show ?thesis
    by (simp add: expired1_def)
qed

subsection \<open>The pairing of the tokens\<close>

lemma login_paired:
  assumes "tokens_together net" and "paired c"
  shows "paired (fst (snd (login net username password tenant_id c w)))"
proof (cases "outcome (net (sent w @ [login_request c username password tenant_id]))")
  case None
  with assms(2) show ?thesis
    by (simp add: login_def requests_post_simp)
next
  case (Some rsp)
  show ?thesis
  proof (cases "status_code rsp = 200")
    case False
    with Some assms(2) show ?thesis
      by (simp add: login_def requests_post_simp)
  next
    case True
    show ?thesis
    proof (cases "json rsp")
      case NotJSON
      with Some True assms(2) show ?thesis
        by (simp add: login_def requests_post_simp)
    next
      case NotObject
      with Some True assms(2) show ?thesis
        by (simp add: login_def requests_post_simp)
    next
      case (Object data)
      from assms(1) \<open>outcome _ = Some rsp\<close> True Object
      have "access_token_f data \<noteq> Missing \<longrightarrow>
          refresh_token_f data \<noteq> Missing \<and>
          truthy (value_of (access_token_f data)) = truthy (value_of (refresh_token_f data))"
        unfolding tokens_together_def by blast
      with \<open>outcome _ = Some rsp\<close> True Object assms(2) show ?thesis
        by (auto simp add: login_def requests_post_simp paired_def Let_def
              split: sum.splits field.splits)
    qed
  qed
qed

lemma refresh_paired:
  assumes "tokens_together net" and "paired c"
  shows "paired (fst (snd (refresh_access_token net c w)))"
proof (cases "truthy (refresh_token c)")
  case False
  with assms(2) show ?thesis
    by (simp add: refresh_access_token_def)
next
  case t: True
  show ?thesis
  proof (cases "outcome (net (sent w @ [refresh_request c]))")
    case None
    with t assms(2) show ?thesis
      by (simp add: refresh_access_token_def requests_post_simp)
  next
    case (Some rsp)
    show ?thesis
    proof (cases "status_code rsp = 200")
      case False
      with t Some assms(2) show ?thesis
        by (simp add: refresh_access_token_def requests_post_simp)
    next
      case True
      show ?thesis
      proof (cases "json rsp")
        case NotJSON
        with t Some True assms(2) show ?thesis
          by (simp add: refresh_access_token_def requests_post_simp)
      next
        case NotObject
        with t Some True assms(2) show ?thesis
          by (simp add: refresh_access_token_def requests_post_simp)
      next
        case (Object data)
        from assms(1) \<open>outcome _ = Some rsp\<close> True Object
        have "access_token_f data \<noteq> Missing \<longrightarrow>
            refresh_token_f data \<noteq> Missing \<and>
            truthy (value_of (access_token_f data)) = truthy (value_of (refresh_token_f data))"
          unfolding tokens_together_def by blast
        with t \<open>outcome _ = Some rsp\<close> True Object assms(2) show ?thesis
          by (auto simp add: refresh_access_token_def requests_post_simp paired_def Let_def
                split: sum.splits)
      qed
    qed
  qed
qed

lemma get_headers_paired:
  "tokens_together net \<Longrightarrow> paired c \<Longrightarrow> paired (fst (snd (get_headers net c w)))"
  using refresh_paired [of net c w]
  by (auto simp add: get_headers_unfold split: sum.splits prod.splits)

lemma logout_paired:
  assumes "tokens_together net" and "paired c"
  shows "paired (fst (snd (logout net c w)))"
proof (cases "truthy (refresh_token c)")
  case False
  with assms(2) show ?thesis
    by (simp add: logout_def)
next
  case True
  obtain res c1 w1 where g: "get_headers net c w = (res, c1, w1)"
    by (cases "get_headers net c w") auto
  with get_headers_paired [OF assms, of w] have "paired c1"
    by simp
  with True g show ?thesis
    by (auto simp add: logout_def requests_post_simp paired_def split: sum.splits option.splits)
qed

lemma step_paired:
  "tokens_together net \<Longrightarrow> paired (fst s) \<Longrightarrow> paired (fst (step net x s))"
  by (cases s; cases x)
     (simp_all add: login_paired refresh_paired get_headers_paired logout_paired)

lemma run_paired:
  "tokens_together net \<Longrightarrow> paired (fst s) \<Longrightarrow> paired (fst (run net ops s))"
  by (induction ops arbitrary: s) (simp_all add: step_paired)

lemma tokens_together_granting: "tokens_together (granting e)"
  by (auto simp add: tokens_together_def granting_def granted_def body2_def)

text \<open>
  C10 (amended). A new client holds neither token, and every sequence of calls (login,
  refresh, \<open>_get_headers\<close>, logout, with time passing in between, on their normal and
  their raising paths) started in a state where the client holds an access token exactly
  when it holds a refresh token, ends in such a state, provided every 200 body of the
  server that carries the key \<open>access_token\<close> also carries the key \<open>refresh_token\<close>, and
  the two values are both usable tokens or both not (\<open>null\<close> or empty). \<open>login\<close> and
  \<open>refresh_access_token\<close> assign the two fields one after the other and store what the
  body holds: on a body without \<open>refresh_token\<close> the \<open>KeyError\<close> leaves the first
  assignment in place, and a \<open>null\<close> is stored as \<open>None\<close>.
\<close>

theorem tokens_paired_invariant:
  "paired (init b) \<and>
   (tokens_together net \<and> paired c \<longrightarrow> paired (fst (run net ops (c, w))))"
  using run_paired [of net "(c, w)" ops]
  by (simp add: paired_def init_def)

theorem tokens_paired_invariant_witness:
  "tokens_together (granting 60) \<and> paired (init home) \<and>
   paired (fst (run (granting 60) [Login ''u'' ''p'' ''t'', Wait 100, EnsureValid, Logout]
      (init home, \<lparr>clock = 0, sent = []\<rparr>)))"
proof -
  have t: "tokens_together (granting 60)"
    by (rule tokens_together_granting)
  from tokens_paired_invariant [of home "granting 60" "init home"
      "[Login ''u'' ''p'' ''t'', Wait 100, EnsureValid, Logout]" "\<lparr>clock = 0, sent = []\<rparr>"] t
  show ?thesis
    by blast
qed

text \<open>
  The claim as stated fails on a raising path of \<open>login\<close>: a 200 body with
  \<open>access_token\<close> and without \<open>refresh_token\<close> leaves a new client with an access
  token and no refresh token.
\<close>

theorem tokens_paired_invariant_counterexample:
  "paired (init home) \<and>
   login half ''u'' ''p'' ''t'' (init home) \<lparr>clock = 0, sent = []\<rparr> =
     (Inl (KeyError ''refresh_token''),
      \<lparr>base_url = home, access_token = Some ''a1'', refresh_token = None,
         token_expires_at = Finite 0\<rparr>,
      \<lparr>clock = 1, sent = [login_request (init home) ''u'' ''p'' ''t'']\<rparr>) \<and>
   \<not> paired \<lparr>base_url = home, access_token = Some ''a1'', refresh_token = None,
       token_expires_at = Finite 0\<rparr>"
  by (simp add: paired_def login_def requests_post_simp half_def granted_def init_def)

subsection \<open>Rotation of the refresh token\<close>































end
